theory Spec2Isabelle
  imports Main "HOL-Library.Sublist" "HOL-Library.Multiset" "HOL-Library.Product_Lexorder"
begin

section \<open>Data model\<close>

text \<open>
  The schemas of \<^verbatim>\<open>src/models\<close>. A document identifier (an ObjectId, twelve bytes) is
  a natural number; a date is its number of milliseconds since the epoch, which for a
  \<^verbatim>\<open>Date\<close> lies within 8640000000000000 of zero; text is ASCII.
  \<open>priority\<close> and \<open>status\<close> are strings, as the schema declares them: the enumeration is a
  validator that runs on save, not a type.
\<close>

type_synonym oid = nat
type_synonym date = int

record task =
  task_id :: oid
  title :: string
  description :: string
  category :: string
  priority :: string
  status :: string
  dueDate :: "date option"
  createdAt :: date
  updatedAt :: date

record category_doc =
  category_id :: oid
  name :: string
  category_color :: string
  icon :: string

record note_doc =
  note_id :: oid
  taskId :: "oid option"
  note_title :: string
  content :: string
  color :: string
  pinned :: bool
  note_createdAt :: date
  note_updatedAt :: date

text \<open>The three collections the handlers read and write, each in insertion order.\<close>

record db =
  task_docs :: "task list"
  category_docs :: "category_doc list"
  note_docs :: "note_doc list"

text \<open>
  A request body (\<^verbatim>\<open>req.body\<close>) over the paths of the schema: \<open>None\<close> is a key the
  body does not have, \<open>Some v\<close> a key with the value \<open>v\<close>. A text path holds a string, and a
  date path holds a number, the milliseconds the client sends, which the store has yet to
  cast to a date. \<open>dueDate\<close> and \<open>taskId\<close> may be present and \<^verbatim>\<open>null\<close>.
\<close>

record task_body =
  b_title :: "string option"
  b_description :: "string option"
  b_category :: "string option"
  b_priority :: "string option"
  b_status :: "string option"
  b_dueDate :: "int option option"
  b_createdAt :: "int option"
  b_updatedAt :: "int option"

record note_body =
  b_taskId :: "oid option option"
  b_note_title :: "string option"
  b_content :: "string option"
  b_color :: "string option"
  b_pinned :: "bool option"
  b_note_createdAt :: "int option"
  b_note_updatedAt :: "int option"

text \<open>The query string of \<^verbatim>\<open>GET /tasks\<close> and \<^verbatim>\<open>GET /notes\<close>: \<open>None\<close> is an absent parameter.\<close>

record task_query =
  q_category :: "string option"
  q_status :: "string option"
  q_priority :: "string option"
  q_search :: "string option"

record note_query =
  q_taskId :: "string option"
  q_note_search :: "string option"

text \<open>What the store throws, and what a handler sends.\<close>

datatype store_error =
    CastError string
  | ValidationError "string list"
  | RegexError string
  | QueryFailed string

datatype error_text = Fixed string | Message store_error

record stats_tasks =
  total :: nat
  pending :: nat
  inProgress :: nat
  completed :: nat

record stats_priority =
  high :: nat
  medium :: nat
  low :: nat

record stats =
  stats_tasks :: stats_tasks
  stats_priority :: stats_priority
  stats_categories :: nat
  stats_notes :: nat

datatype json =
    Task_doc task
  | Task_list "task list"
  | Note_doc note_doc
  | Note_list "note_doc list"
  | Stats_obj stats
  | Message_obj string
  | Error_obj error_text

record response =
  code :: nat
  body :: json

fun has_error_key :: "json \<Rightarrow> bool" where
  "has_error_key (Error_obj e) = True"
| "has_error_key j = False"

section \<open>The collection store\<close>

text \<open>
  The cast of a number to a date path is \<^verbatim>\<open>new Date(v)\<close>, which is a valid date when the
  number is within the range of \<^verbatim>\<open>Date\<close> and fails otherwise. \<open>cast_failed\<close> names the path
  when its value does not cast, and \<open>cast_default\<close> is the value a date path ends up with.
\<close>

definition in_Date_range :: "int \<Rightarrow> bool" where
  "in_Date_range v = (- 8640000000000000 \<le> v \<and> v \<le> 8640000000000000)"

definition castDate :: "int \<Rightarrow> date option" where
  "castDate v = (if in_Date_range v then Some v else None)"

definition cast_failed :: "string \<Rightarrow> int option \<Rightarrow> string list" where
  "cast_failed path v =
     (case v of None \<Rightarrow> [] | Some x \<Rightarrow> (case castDate x of None \<Rightarrow> [path] | Some dt \<Rightarrow> []))"

definition cast_default :: "date \<Rightarrow> int option \<Rightarrow> date" where
  "cast_default dflt v =
     (case v of None \<Rightarrow> dflt | Some x \<Rightarrow> (case castDate x of None \<Rightarrow> dflt | Some dt \<Rightarrow> dt))"

text \<open>The date paths of a task body, or of an update payload, that do not cast.\<close>

definition cast_errors :: "task_body \<Rightarrow> string list" where
  "cast_errors b =
     cast_failed ''dueDate'' (case b_dueDate b of None \<Rightarrow> None | Some v \<Rightarrow> v)
     @ cast_failed ''createdAt'' (b_createdAt b)
     @ cast_failed ''updatedAt'' (b_updatedAt b)"

definition note_cast_errors :: "note_body \<Rightarrow> string list" where
  "note_cast_errors b =
     cast_failed ''createdAt'' (b_note_createdAt b) @ cast_failed ''updatedAt'' (b_note_updatedAt b)"

text \<open>
  The operations of the model class the handlers call. An identifier arrives as the text of
  the path parameter; \<open>cast\<close> is the store's parser of identifiers, \<open>None\<close> where it cannot
  parse the text, and then the operation throws a \<open>CastError\<close> before any lookup.
\<close>

definition findById :: "(string \<Rightarrow> oid option) \<Rightarrow> string \<Rightarrow> task list \<Rightarrow> store_error + task option" where
  "findById cast rid ts =
     (case cast rid of
        None \<Rightarrow> Inl (CastError ''_id'')
      | Some k \<Rightarrow> Inr (find (\<lambda>t. task_id t = k) ts))"

fun remove_first :: "('a \<Rightarrow> bool) \<Rightarrow> 'a list \<Rightarrow> 'a list" where
  "remove_first P [] = []"
| "remove_first P (x # xs) = (if P x then xs else x # remove_first P xs)"

definition findByIdAndDelete ::
  "(string \<Rightarrow> oid option) \<Rightarrow> string \<Rightarrow> task list \<Rightarrow> store_error + (task option \<times> task list)" where
  "findByIdAndDelete cast rid ts =
     (case cast rid of
        None \<Rightarrow> Inl (CastError ''_id'')
      | Some k \<Rightarrow> Inr (find (\<lambda>t. task_id t = k) ts, remove_first (\<lambda>t. task_id t = k) ts))"

text \<open>
  An update without operators sets exactly the paths the payload has, each to its cast
  value, and leaves the others; no validator runs (\<^verbatim>\<open>runValidators\<close> is not asked for).
\<close>

definition apply_update :: "task_body \<Rightarrow> task \<Rightarrow> task" where
  "apply_update u t =
     t\<lparr> title := (case b_title u of None \<Rightarrow> title t | Some v \<Rightarrow> v),
        description := (case b_description u of None \<Rightarrow> description t | Some v \<Rightarrow> v),
        category := (case b_category u of None \<Rightarrow> category t | Some v \<Rightarrow> v),
        priority := (case b_priority u of None \<Rightarrow> priority t | Some v \<Rightarrow> v),
        status := (case b_status u of None \<Rightarrow> status t | Some v \<Rightarrow> v),
        dueDate := (case b_dueDate u of None \<Rightarrow> dueDate t | Some None \<Rightarrow> None
                    | Some (Some v) \<Rightarrow> castDate v),
        createdAt := cast_default (createdAt t) (b_createdAt u),
        updatedAt := cast_default (updatedAt t) (b_updatedAt u) \<rparr>"

fun update_first :: "('a \<Rightarrow> bool) \<Rightarrow> ('a \<Rightarrow> 'a) \<Rightarrow> 'a list \<Rightarrow> 'a option \<times> 'a list" where
  "update_first P f [] = (None, [])"
| "update_first P f (x # xs) =
     (if P x then (Some (f x), f x # xs)
      else (case update_first P f xs of (r, ys) \<Rightarrow> (r, x # ys)))"

text \<open>
  The identifier and the payload are cast before the store is asked, and a value that does
  not cast makes the operation throw. With \<^verbatim>\<open>{ new: true }\<close> the operation returns the
  document as it is after the update.
\<close>

definition findByIdAndUpdate ::
  "(string \<Rightarrow> oid option) \<Rightarrow> string \<Rightarrow> task_body \<Rightarrow> task list \<Rightarrow> store_error + (task option \<times> task list)" where
  "findByIdAndUpdate cast rid u ts =
     (case cast rid of
        None \<Rightarrow> Inl (CastError ''_id'')
      | Some k \<Rightarrow>
          (case cast_errors u of
             [] \<Rightarrow> Inr (update_first (\<lambda>t. task_id t = k) (apply_update u) ts)
           | p # ps \<Rightarrow> Inl (CastError p)))"

section \<open>Route handlers: one task\<close>

text \<open>\<^verbatim>\<open>router.get('/:id')\<close> of \<^verbatim>\<open>routes/tasks.js\<close>.\<close>

definition tasks_get_id :: "(string \<Rightarrow> oid option) \<Rightarrow> string \<Rightarrow> db \<Rightarrow> response \<times> db" where
  "tasks_get_id cast rid d =
     (case findById cast rid (task_docs d) of
        Inl err \<Rightarrow> (\<lparr>code = 500, body = Error_obj (Message err)\<rparr>, d)
      | Inr None \<Rightarrow> (\<lparr>code = 404, body = Error_obj (Fixed ''Task not found'')\<rparr>, d)
      | Inr (Some t) \<Rightarrow> (\<lparr>code = 200, body = Task_doc t\<rparr>, d))"

text \<open>
  \<^verbatim>\<open>router.put('/:id')\<close>: the payload is the body with \<open>updatedAt\<close> overridden by the
  server's clock \<open>now\<close>, a valid date whenever the server reads it; whatever the store
  throws is answered with 400.
\<close>

definition tasks_put_id ::
  "(string \<Rightarrow> oid option) \<Rightarrow> date \<Rightarrow> string \<Rightarrow> task_body \<Rightarrow> db \<Rightarrow> response \<times> db" where
  "tasks_put_id cast now rid b d =
     (case findByIdAndUpdate cast rid (b\<lparr>b_updatedAt := Some now\<rparr>) (task_docs d) of
        Inl err \<Rightarrow> (\<lparr>code = 400, body = Error_obj (Message err)\<rparr>, d)
      | Inr (None, ts) \<Rightarrow> (\<lparr>code = 404, body = Error_obj (Fixed ''Task not found'')\<rparr>, d)
      | Inr (Some t, ts) \<Rightarrow> (\<lparr>code = 200, body = Task_doc t\<rparr>, d\<lparr>task_docs := ts\<rparr>))"

text \<open>\<^verbatim>\<open>router.delete('/:id')\<close>.\<close>

definition tasks_delete_id :: "(string \<Rightarrow> oid option) \<Rightarrow> string \<Rightarrow> db \<Rightarrow> response \<times> db" where
  "tasks_delete_id cast rid d =
     (case findByIdAndDelete cast rid (task_docs d) of
        Inl err \<Rightarrow> (\<lparr>code = 500, body = Error_obj (Message err)\<rparr>, d)
      | Inr (None, ts) \<Rightarrow> (\<lparr>code = 404, body = Error_obj (Fixed ''Task not found'')\<rparr>, d)
      | Inr (Some t, ts) \<Rightarrow> (\<lparr>code = 200, body = Message_obj ''Task deleted successfully''\<rparr>, d\<lparr>task_docs := ts\<rparr>))"

section \<open>Creating a task\<close>

text \<open>
  \<^verbatim>\<open>new Task(req.body)\<close>: every path the body has is cast and taken from it, and a path it
  does not have gets the schema's default; \<open>Date.now\<close> is read at construction (\<open>t_new\<close>).
  The document remembers the paths whose value did not cast, the second component here. A
  document without a title is built with the empty title: the \<open>required\<close> validator of a
  string path rejects the missing and the empty value alike.
\<close>

definition new_Task :: "oid \<Rightarrow> date \<Rightarrow> task_body \<Rightarrow> task \<times> string list" where
  "new_Task i t_new b =
    (\<lparr> task_id = i,
       title = (case b_title b of None \<Rightarrow> [] | Some v \<Rightarrow> v),
       description = (case b_description b of None \<Rightarrow> [] | Some v \<Rightarrow> v),
       category = (case b_category b of None \<Rightarrow> ''general'' | Some v \<Rightarrow> v),
       priority = (case b_priority b of None \<Rightarrow> ''medium'' | Some v \<Rightarrow> v),
       status = (case b_status b of None \<Rightarrow> ''pending'' | Some v \<Rightarrow> v),
       dueDate = (case b_dueDate b of None \<Rightarrow> None | Some None \<Rightarrow> None
                  | Some (Some v) \<Rightarrow> castDate v),
       createdAt = cast_default t_new (b_createdAt b),
       updatedAt = cast_default t_new (b_updatedAt b) \<rparr>,
     cast_errors b)"

text \<open>The validators of \<open>taskSchema\<close>; the result lists the paths that fail.\<close>

definition validate_task :: "task \<Rightarrow> string list" where
  "validate_task t =
     (if title t = [] then [''title''] else []) @
     (if priority t \<in> set [''low'', ''medium'', ''high''] then [] else [''priority'']) @
     (if status t \<in> set [''pending'', ''in-progress'', ''completed''] then [] else [''status''])"

text \<open>
  \<^verbatim>\<open>task.save()\<close>: validation, which fails on the remembered cast errors as on the
  validators, then the \<^verbatim>\<open>pre('save')\<close> hook, which sets \<open>updatedAt\<close> to the clock read at
  that moment (\<open>t_save\<close>), then the insertion.
\<close>

definition save_task :: "date \<Rightarrow> task \<times> string list \<Rightarrow> task list \<Rightarrow> store_error + (task \<times> task list)" where
  "save_task t_save unsaved ts =
     (case snd unsaved @ validate_task (fst unsaved) of
        [] \<Rightarrow> (let t' = (fst unsaved)\<lparr>updatedAt := t_save\<rparr> in Inr (t', ts @ [t']))
      | p # ps \<Rightarrow> Inl (ValidationError (p # ps)))"

text \<open>\<^verbatim>\<open>router.post('/')\<close> of \<^verbatim>\<open>routes/tasks.js\<close>; \<open>i\<close> is the identifier the driver generates.\<close>

definition tasks_post :: "oid \<Rightarrow> date \<Rightarrow> date \<Rightarrow> task_body \<Rightarrow> db \<Rightarrow> response \<times> db" where
  "tasks_post i t_new t_save b d =
     (case save_task t_save (new_Task i t_new b) (task_docs d) of
        Inl err \<Rightarrow> (\<lparr>code = 400, body = Error_obj (Message err)\<rparr>, d)
      | Inr (t, ts) \<Rightarrow> (\<lparr>code = 201, body = Task_doc t\<rparr>, d\<lparr>task_docs := ts\<rparr>))"

section \<open>Regular expressions of the store\<close>

text \<open>
  \<^verbatim>\<open>{ $regex: s, $options: 'i' }\<close> hands the text \<open>s\<close> to the store as a pattern. Two kinds
  of pattern are evaluated here: a pattern of ordinary characters, which stand for themselves,
  and a pattern that also has the dot, which stands for any character but the line feed.
  Letters match without regard to case, and the match may begin anywhere in the subject.
  Any other pattern is left to \<open>engine\<close>, the rest of the store's pattern language, which
  gives \<open>None\<close> for a pattern it rejects.
\<close>

definition toLowerCase :: "char \<Rightarrow> char" where
  "toLowerCase c =
     (case map_of (zip ''ABCDEFGHIJKLMNOPQRSTUVWXYZ'' ''abcdefghijklmnopqrstuvwxyz'') c of
        None \<Rightarrow> c | Some l \<Rightarrow> l)"

definition metachar :: "char \<Rightarrow> bool" where
  "metachar c = (c \<in> set ''^$.[]|()?*+{}'' \<or> c = CHR 0x5C)"

definition ordinary_or_dot :: "string \<Rightarrow> bool" where
  "ordinary_or_dot pat = list_all (\<lambda>c. \<not> metachar c \<or> c = CHR ''.'') pat"

fun match_here :: "string \<Rightarrow> string \<Rightarrow> bool" where
  "match_here [] s = True"
| "match_here (p # ps) [] = False"
| "match_here (p # ps) (c # cs) =
     ((if p = CHR ''.'' then c \<noteq> CHR 0x0A else toLowerCase p = toLowerCase c) \<and> match_here ps cs)"

fun match_anywhere :: "string \<Rightarrow> string \<Rightarrow> bool" where
  "match_anywhere pat [] = match_here pat []"
| "match_anywhere pat (c # cs) = (match_here pat (c # cs) \<or> match_anywhere pat cs)"

definition regex_i :: "(string \<Rightarrow> (string \<Rightarrow> bool) option) \<Rightarrow> string \<Rightarrow> (string \<Rightarrow> bool) option" where
  "regex_i engine pat = (if ordinary_or_dot pat then Some (match_anywhere pat) else engine pat)"

section \<open>Listing tasks\<close>

text \<open>A query parameter passes \<^verbatim>\<open>if (req.query.x)\<close> when it is present and not empty.\<close>

definition truthy :: "string option \<Rightarrow> bool" where
  "truthy p = (case p of None \<Rightarrow> False | Some s \<Rightarrow> s \<noteq> [])"

text \<open>The filter object: a key is there when the handler has set it.\<close>

record task_filter =
  f_category :: "string option"
  f_status :: "string option"
  f_priority :: "string option"
  f_title :: "string option"

definition equals :: "string option \<Rightarrow> string \<Rightarrow> bool" where
  "equals p v = (case p of None \<Rightarrow> True | Some x \<Rightarrow> v = x)"

text \<open>\<^verbatim>\<open>Task.find(filter)\<close>: the documents that pass every key of the filter, in store order.\<close>

definition find_tasks ::
  "(string \<Rightarrow> (string \<Rightarrow> bool) option) \<Rightarrow> task_filter \<Rightarrow> task list \<Rightarrow> store_error + task list" where
  "find_tasks engine f ts =
     (case f_title f of
        None \<Rightarrow>
          Inr (filter (\<lambda>t. equals (f_category f) (category t) \<and> equals (f_status f) (status t)
                         \<and> equals (f_priority f) (priority t)) ts)
      | Some pat \<Rightarrow>
          (case regex_i engine pat of
             None \<Rightarrow> Inl (RegexError pat)
           | Some m \<Rightarrow>
               Inr (filter (\<lambda>t. equals (f_category f) (category t) \<and> equals (f_status f) (status t)
                              \<and> equals (f_priority f) (priority t) \<and> m (title t)) ts)))"

text \<open>\<^verbatim>\<open>.sort({ createdAt: -1 })\<close>: newest first; documents of one date keep the store's order.\<close>

definition sort_createdAt_desc :: "task list \<Rightarrow> task list" where
  "sort_createdAt_desc ts = sort_key (\<lambda>t. - createdAt t) ts"

text \<open>\<^verbatim>\<open>router.get('/')\<close> of \<^verbatim>\<open>routes/tasks.js\<close>.\<close>

definition tasks_get :: "(string \<Rightarrow> (string \<Rightarrow> bool) option) \<Rightarrow> task_query \<Rightarrow> db \<Rightarrow> response \<times> db" where
  "tasks_get engine q d =
     (let f = \<lparr> f_category = (if truthy (q_category q) then q_category q else None),
                f_status = (if truthy (q_status q) then q_status q else None),
                f_priority = (if truthy (q_priority q) then q_priority q else None),
                f_title = (if truthy (q_search q) then q_search q else None) \<rparr>
      in case find_tasks engine f (task_docs d) of
           Inl err \<Rightarrow> (\<lparr>code = 500, body = Error_obj (Message err)\<rparr>, d)
         | Inr ts \<Rightarrow> (\<lparr>code = 200, body = Task_list (sort_createdAt_desc ts)\<rparr>, d))"

section \<open>Notes\<close>

text \<open>
  \<^verbatim>\<open>new Note(req.body)\<close> with the casts and the defaults of \<open>noteSchema\<close>; a missing content
  is built empty.
\<close>

definition new_Note :: "oid \<Rightarrow> date \<Rightarrow> note_body \<Rightarrow> note_doc \<times> string list" where
  "new_Note i t_new b =
    (\<lparr> note_id = i,
       taskId = (case b_taskId b of None \<Rightarrow> None | Some v \<Rightarrow> v),
       note_title = (case b_note_title b of None \<Rightarrow> [] | Some v \<Rightarrow> v),
       content = (case b_content b of None \<Rightarrow> [] | Some v \<Rightarrow> v),
       color = (case b_color b of None \<Rightarrow> ''#ffffa5'' | Some v \<Rightarrow> v),
       pinned = (case b_pinned b of None \<Rightarrow> False | Some v \<Rightarrow> v),
       note_createdAt = cast_default t_new (b_note_createdAt b),
       note_updatedAt = cast_default t_new (b_note_updatedAt b) \<rparr>,
     note_cast_errors b)"

definition validate_note :: "note_doc \<Rightarrow> string list" where
  "validate_note n = (if content n = [] then [''content''] else [])"

definition save_note ::
  "date \<Rightarrow> note_doc \<times> string list \<Rightarrow> note_doc list \<Rightarrow> store_error + (note_doc \<times> note_doc list)" where
  "save_note t_save unsaved ns =
     (case snd unsaved @ validate_note (fst unsaved) of
        [] \<Rightarrow> (let n' = (fst unsaved)\<lparr>note_updatedAt := t_save\<rparr> in Inr (n', ns @ [n']))
      | p # ps \<Rightarrow> Inl (ValidationError (p # ps)))"

text \<open>\<^verbatim>\<open>router.post('/')\<close> of \<^verbatim>\<open>routes/notes.js\<close>.\<close>

definition notes_post :: "oid \<Rightarrow> date \<Rightarrow> date \<Rightarrow> note_body \<Rightarrow> db \<Rightarrow> response \<times> db" where
  "notes_post i t_new t_save b d =
     (case save_note t_save (new_Note i t_new b) (note_docs d) of
        Inl err \<Rightarrow> (\<lparr>code = 400, body = Error_obj (Message err)\<rparr>, d)
      | Inr (n, ns) \<Rightarrow> (\<lparr>code = 201, body = Note_doc n\<rparr>, d\<lparr>note_docs := ns\<rparr>))"

record note_filter =
  f_taskId :: "string option"
  f_content :: "string option"

text \<open>
  \<^verbatim>\<open>Note.find(filter)\<close>: the text under \<open>taskId\<close> is cast to an identifier first, and the
  query throws when the cast fails.
\<close>

definition find_notes ::
  "(string \<Rightarrow> oid option) \<Rightarrow> (string \<Rightarrow> (string \<Rightarrow> bool) option) \<Rightarrow> note_filter \<Rightarrow> note_doc list
     \<Rightarrow> store_error + note_doc list" where
  "find_notes cast engine f ns =
     (case (case f_taskId f of
              None \<Rightarrow> Inr (\<lambda>n. True)
            | Some s \<Rightarrow> (case cast s of
                          None \<Rightarrow> Inl (CastError ''taskId'')
                        | Some k \<Rightarrow> Inr (\<lambda>n. taskId n = Some k))) of
        Inl err \<Rightarrow> Inl err
      | Inr by_task \<Rightarrow>
          (case f_content f of
             None \<Rightarrow> Inr (filter by_task ns)
           | Some pat \<Rightarrow>
               (case regex_i engine pat of
                  None \<Rightarrow> Inl (RegexError pat)
                | Some m \<Rightarrow> Inr (filter (\<lambda>n. by_task n \<and> m (content n)) ns))))"

text \<open>
  \<^verbatim>\<open>.sort({ pinned: -1, createdAt: -1 })\<close>: \<open>true\<close> before \<open>false\<close>, then newest first. The key
  orders pairs lexicographically, and \<open>False < True\<close>.
\<close>

definition sort_pinned_createdAt_desc :: "note_doc list \<Rightarrow> note_doc list" where
  "sort_pinned_createdAt_desc ns = sort_key (\<lambda>n. (\<not> pinned n, - note_createdAt n)) ns"

text \<open>\<^verbatim>\<open>router.get('/')\<close> of \<^verbatim>\<open>routes/notes.js\<close>.\<close>

definition notes_get ::
  "(string \<Rightarrow> oid option) \<Rightarrow> (string \<Rightarrow> (string \<Rightarrow> bool) option) \<Rightarrow> note_query \<Rightarrow> db \<Rightarrow> response \<times> db" where
  "notes_get cast engine q d =
     (let f = \<lparr> f_taskId = (if truthy (q_taskId q) then q_taskId q else None),
                f_content = (if truthy (q_note_search q) then q_note_search q else None) \<rparr>
      in case find_notes cast engine f (note_docs d) of
           Inl err \<Rightarrow> (\<lparr>code = 500, body = Error_obj (Message err)\<rparr>, d)
         | Inr ns \<Rightarrow> (\<lparr>code = 200, body = Note_list (sort_pinned_createdAt_desc ns)\<rparr>, d))"

section \<open>Statistics\<close>

text \<open>
  \<^verbatim>\<open>Model.countDocuments(filter)\<close>: the number of documents that pass the filter, unless the
  query fails; \<open>fault\<close> is the message of the failure, when there is one.
\<close>

definition countDocuments :: "string option \<Rightarrow> ('a \<Rightarrow> bool) \<Rightarrow> 'a list \<Rightarrow> store_error + nat" where
  "countDocuments fault P xs =
     (case fault of None \<Rightarrow> Inr (length (filter P xs)) | Some m \<Rightarrow> Inl (QueryFailed m))"

text \<open>
  \<^verbatim>\<open>Promise.all\<close>: the results in the order of the queries, or a rejection as soon as one
  query is rejected. Which rejection it is when several queries fail depends on their
  timing; the first in the order of the queries is taken here.
\<close>

fun promise_all :: "('e + 'a) list \<Rightarrow> 'e + 'a list" where
  "promise_all [] = Inr []"
| "promise_all (Inl e # rs) = Inl e"
| "promise_all (Inr v # rs) = (case promise_all rs of Inl e \<Rightarrow> Inl e | Inr vs \<Rightarrow> Inr (v # vs))"

text \<open>
  \<^verbatim>\<open>router.get('/')\<close> of \<^verbatim>\<open>routes/stats.js\<close>; \<open>fault k\<close> is the failure of the \<open>k\<close>-th
  query of the array. The destructuring reads the results by position.
\<close>

definition stats_get :: "(nat \<Rightarrow> string option) \<Rightarrow> db \<Rightarrow> response \<times> db" where
  "stats_get fault d =
     (case promise_all
             [ countDocuments (fault 0) (\<lambda>t. True) (task_docs d),
               countDocuments (fault 1) (\<lambda>t. status t = ''pending'') (task_docs d),
               countDocuments (fault 2) (\<lambda>t. status t = ''in-progress'') (task_docs d),
               countDocuments (fault 3) (\<lambda>t. status t = ''completed'') (task_docs d),
               countDocuments (fault 4) (\<lambda>t. priority t = ''high'') (task_docs d),
               countDocuments (fault 5) (\<lambda>t. priority t = ''medium'') (task_docs d),
               countDocuments (fault 6) (\<lambda>t. priority t = ''low'') (task_docs d),
               countDocuments (fault 7) (\<lambda>c. True) (category_docs d),
               countDocuments (fault 8) (\<lambda>n. True) (note_docs d) ] of
        Inl err \<Rightarrow> (\<lparr>code = 500, body = Error_obj (Message err)\<rparr>, d)
      | Inr rs \<Rightarrow>
          (\<lparr> code = 200,
             body = Stats_obj
               \<lparr> stats_tasks = \<lparr> total = rs ! 0, pending = rs ! 1, inProgress = rs ! 2, completed = rs ! 3 \<rparr>,
                 stats_priority = \<lparr> high = rs ! 4, medium = rs ! 5, low = rs ! 6 \<rparr>,
                 stats_categories = rs ! 7,
                 stats_notes = rs ! 8 \<rparr> \<rparr>, d))"

section \<open>What the listing is meant to return\<close>

text \<open>
  The reading of a filtered listing in plain terms, to compare \<open>tasks_get\<close> with: a
  parameter that is absent or empty asks for nothing, \<open>category\<close>, \<open>status\<close> and
  \<open>priority\<close> ask for equality, and \<open>search\<close> asks that the title contain the text as it
  stands, letters compared without regard to case.
\<close>

definition contains_ignoring_case :: "string \<Rightarrow> string \<Rightarrow> bool" where
  "contains_ignoring_case s ttl = sublist (map toLowerCase s) (map toLowerCase ttl)"

definition asks :: "string option \<Rightarrow> (string \<Rightarrow> bool) \<Rightarrow> bool" where
  "asks p holds = (case p of None \<Rightarrow> True | Some s \<Rightarrow> s = [] \<or> holds s)"

definition satisfies :: "task_query \<Rightarrow> task \<Rightarrow> bool" where
  "satisfies q t =
     (asks (q_category q) (\<lambda>s. category t = s) \<and> asks (q_status q) (\<lambda>s. status t = s)
      \<and> asks (q_priority q) (\<lambda>s. priority t = s)
      \<and> asks (q_search q) (\<lambda>s. contains_ignoring_case s (title t)))"

definition plain_text :: "string option \<Rightarrow> bool" where
  "plain_text p = (case p of None \<Rightarrow> True | Some s \<Rightarrow> list_all (\<lambda>c. \<not> metachar c) s)"

section \<open>Sample data\<close>

text \<open>
  An identifier as the driver prints it, twenty-four hexadecimal digits, and a store with
  three tasks, two categories and three notes, used to run the handlers.
\<close>

definition hex_digit :: "char \<Rightarrow> nat option" where
  "hex_digit c =
     map_of (zip ''0123456789abcdef'' [0, 1, 2, 3, 4, 5, 6, 7, 8, 9, 10, 11, 12, 13, 14, 15]
             @ zip ''ABCDEF'' [10, 11, 12, 13, 14, 15]) c"

fun hex_value :: "nat \<Rightarrow> string \<Rightarrow> nat option" where
  "hex_value acc [] = Some acc"
| "hex_value acc (c # cs) = (case hex_digit c of None \<Rightarrow> None | Some v \<Rightarrow> hex_value (16 * acc + v) cs)"

definition objectid_of_hex :: "string \<Rightarrow> oid option" where
  "objectid_of_hex s = (if length s = 24 then hex_value 0 s else None)"

definition sample_task :: "oid \<Rightarrow> string \<Rightarrow> string \<Rightarrow> string \<Rightarrow> string \<Rightarrow> date \<Rightarrow> task" where
  "sample_task i ttl cat pri st at =
     \<lparr> task_id = i, title = ttl, description = [], category = cat, priority = pri, status = st,
       dueDate = None, createdAt = at, updatedAt = at \<rparr>"

definition sample_note :: "oid \<Rightarrow> string \<Rightarrow> bool \<Rightarrow> date \<Rightarrow> note_doc" where
  "sample_note i txt pin at =
     \<lparr> note_id = i, taskId = None, note_title = [], content = txt, color = ''#ffffa5'',
       pinned = pin, note_createdAt = at, note_updatedAt = at \<rparr>"

definition sample_db :: db where
  "sample_db =
     \<lparr> task_docs =
         [ sample_task 1 ''Buy Groceries'' ''personal'' ''high'' ''pending'' 100,
           sample_task 2 ''Write Report'' ''work'' ''medium'' ''in-progress'' 200,
           sample_task 3 ''buy coffee'' ''personal'' ''low'' ''completed'' 300 ],
       category_docs =
         [ \<lparr> category_id = 10, name = ''work'', category_color = ''#3498db'', icon = ''folder'' \<rparr>,
           \<lparr> category_id = 11, name = ''personal'', category_color = ''#3498db'', icon = ''folder'' \<rparr> ],
       note_docs =
         [ sample_note 20 ''First regular'' False 100,
           sample_note 21 ''Pinned second'' True 200,
           sample_note 22 ''Regular third'' False 300 ] \<rparr>"

definition empty_body :: task_body where
  "empty_body =
     \<lparr> b_title = None, b_description = None, b_category = None, b_priority = None,
       b_status = None, b_dueDate = None, b_createdAt = None, b_updatedAt = None \<rparr>"

definition empty_note_body :: note_body where
  "empty_note_body =
     \<lparr> b_taskId = None, b_note_title = None, b_content = None, b_color = None,
       b_pinned = None, b_note_createdAt = None, b_note_updatedAt = None \<rparr>"

definition no_query :: task_query where
  "no_query = \<lparr> q_category = None, q_status = None, q_priority = None, q_search = None \<rparr>"

definition no_engine :: "string \<Rightarrow> (string \<Rightarrow> bool) option" where
  "no_engine pat = None"

section \<open>Auxiliary facts\<close>

subsection \<open>Casting dates\<close>

lemma cast_failed_none: "cast_failed path v = [] \<Longrightarrow> cast_default dflt v = (case v of None \<Rightarrow> dflt | Some x \<Rightarrow> x)"
  by (auto simp: cast_failed_def cast_default_def castDate_def split: option.splits if_splits)

lemma cast_errors_none:
  assumes "cast_errors b = []"
  shows "cast_default dflt (b_createdAt b) = (case b_createdAt b of None \<Rightarrow> dflt | Some x \<Rightarrow> x)"
    and "cast_default dflt (b_updatedAt b) = (case b_updatedAt b of None \<Rightarrow> dflt | Some x \<Rightarrow> x)"
  using assms by (auto simp: cast_errors_def intro: cast_failed_none)

lemma note_cast_errors_none:
  assumes "note_cast_errors b = []"
  shows "cast_default dflt (b_note_createdAt b) = (case b_note_createdAt b of None \<Rightarrow> dflt | Some x \<Rightarrow> x)"
  using assms by (auto simp: note_cast_errors_def intro: cast_failed_none)

subsection \<open>Lookup, update and removal by identifier\<close>

lemma update_first_absent: "find P xs = None \<Longrightarrow> update_first P f xs = (None, xs)"
  by (induction xs) (auto split: if_splits)

lemma update_first_present:
  "find P xs = Some x \<Longrightarrow> P (f x) \<Longrightarrow>
     fst (update_first P f xs) = Some (f x) \<and> find P (snd (update_first P f xs)) = Some (f x)"
  by (induction xs) (auto split: if_splits prod.splits)

lemma find_holds: "find P xs = Some x \<Longrightarrow> P x"
  by (induction xs) (auto split: if_splits)

lemma find_absent: "k \<notin> task_id ` set ts \<Longrightarrow> find (\<lambda>t. task_id t = k) ts = None"
  by (auto simp: find_None_iff)

lemma task_id_apply_update: "task_id (apply_update u t) = task_id t"
  by (simp add: apply_update_def)

lemma tasks_put_id_stored:
  assumes "cast rid = Some k" and "find (\<lambda>t. task_id t = k) (task_docs d) = Some t0"
    and "cast_errors (b\<lparr>b_updatedAt := Some now\<rparr>) = []"
  shows "\<exists>d'. tasks_put_id cast now rid b d =
                (\<lparr>code = 200, body = Task_doc (apply_update (b\<lparr>b_updatedAt := Some now\<rparr>) t0)\<rparr>, d')
            \<and> findById cast rid (task_docs d')
                = Inr (Some (apply_update (b\<lparr>b_updatedAt := Some now\<rparr>) t0))"
proof -
  let ?u = "b\<lparr>b_updatedAt := Some now\<rparr>"
  let ?P = "\<lambda>t. task_id t = k"
  have "?P (apply_update ?u t0)"
    using find_holds[OF assms(2)] by (simp add: task_id_apply_update)
  from update_first_present[OF assms(2), of "apply_update ?u", OF this]
  obtain ts where "update_first ?P (apply_update ?u) (task_docs d) = (Some (apply_update ?u t0), ts)"
    and "find ?P ts = Some (apply_update ?u t0)"
    by (cases "update_first ?P (apply_update ?u) (task_docs d)") auto
  with assms(1,3) show ?thesis
    by (simp add: tasks_put_id_def findByIdAndUpdate_def findById_def)
qed

subsection \<open>Creation\<close>

lemma validate_task_ok:
  "title t \<noteq> [] \<Longrightarrow> priority t \<in> set [''low'', ''medium'', ''high'']
   \<Longrightarrow> status t \<in> set [''pending'', ''in-progress'', ''completed''] \<Longrightarrow> validate_task t = []"
  by (simp add: validate_task_def)

lemma tasks_post_created:
  "cast_errors b = [] \<Longrightarrow> validate_task (fst (new_Task i t_new b)) = [] \<Longrightarrow>
     tasks_post i t_new t_save b d =
       (\<lparr>code = 201, body = Task_doc ((fst (new_Task i t_new b))\<lparr>updatedAt := t_save\<rparr>)\<rparr>,
        d\<lparr>task_docs := task_docs d @ [(fst (new_Task i t_new b))\<lparr>updatedAt := t_save\<rparr>]\<rparr>)"
  by (simp add: tasks_post_def save_task_def Let_def new_Task_def)

lemma tasks_post_rejected:
  "cast_errors b \<noteq> [] \<or> validate_task (fst (new_Task i t_new b)) \<noteq> [] \<Longrightarrow>
     code (fst (tasks_post i t_new t_save b d)) = 400
   \<and> has_error_key (body (fst (tasks_post i t_new t_save b d)))
   \<and> snd (tasks_post i t_new t_save b d) = d"
  by (cases "snd (new_Task i t_new b) @ validate_task (fst (new_Task i t_new b))")
     (auto simp: tasks_post_def save_task_def new_Task_def)

lemma tasks_post_201:
  assumes "tasks_post i t_new t_save b d = (\<lparr>code = 201, body = Task_doc t\<rparr>, d')"
  shows "cast_errors b = []"
    and "t = (fst (new_Task i t_new b))\<lparr>updatedAt := t_save\<rparr>"
    and "d' = d\<lparr>task_docs := task_docs d @ [t]\<rparr>"
proof -
  have ok: "\<not> (cast_errors b \<noteq> [] \<or> validate_task (fst (new_Task i t_new b)) \<noteq> [])"
  proof
    assume "cast_errors b \<noteq> [] \<or> validate_task (fst (new_Task i t_new b)) \<noteq> []"
    from tasks_post_rejected[OF this, of t_save d] assms show False by simp
  qed
  then show "cast_errors b = []" by simp
  from ok tasks_post_created[of b i t_new t_save d] assms
  show "t = (fst (new_Task i t_new b))\<lparr>updatedAt := t_save\<rparr>"
    and "d' = d\<lparr>task_docs := task_docs d @ [t]\<rparr>"
    by auto
qed

lemma notes_post_created:
  "note_cast_errors b = [] \<Longrightarrow> validate_note (fst (new_Note i t_new b)) = [] \<Longrightarrow>
     notes_post i t_new t_save b d =
       (\<lparr>code = 201, body = Note_doc ((fst (new_Note i t_new b))\<lparr>note_updatedAt := t_save\<rparr>)\<rparr>,
        d\<lparr>note_docs := note_docs d @ [(fst (new_Note i t_new b))\<lparr>note_updatedAt := t_save\<rparr>]\<rparr>)"
  by (simp add: notes_post_def save_note_def Let_def new_Note_def)

lemma notes_post_rejected:
  "note_cast_errors b \<noteq> [] \<or> validate_note (fst (new_Note i t_new b)) \<noteq> [] \<Longrightarrow>
     code (fst (notes_post i t_new t_save b d)) = 400"
  by (cases "snd (new_Note i t_new b) @ validate_note (fst (new_Note i t_new b))")
     (auto simp: notes_post_def save_note_def new_Note_def)

lemma notes_post_201:
  assumes "notes_post i t_new t_save b d = (\<lparr>code = 201, body = Note_doc n\<rparr>, d')"
  shows "note_cast_errors b = []"
    and "n = (fst (new_Note i t_new b))\<lparr>note_updatedAt := t_save\<rparr>"
    and "note_docs d' = note_docs d @ [n]"
proof -
  have ok: "\<not> (note_cast_errors b \<noteq> [] \<or> validate_note (fst (new_Note i t_new b)) \<noteq> [])"
  proof
    assume "note_cast_errors b \<noteq> [] \<or> validate_note (fst (new_Note i t_new b)) \<noteq> []"
    from notes_post_rejected[OF this, of t_save d] assms show False by simp
  qed
  then show "note_cast_errors b = []" by simp
  from ok notes_post_created[of b i t_new t_save d] assms
  show "n = (fst (new_Note i t_new b))\<lparr>note_updatedAt := t_save\<rparr>"
    and "note_docs d' = note_docs d @ [n]"
    by auto
qed

subsection \<open>Sorted listings\<close>

lemma sorted_createdAt_desc:
  "sorted_wrt (\<lambda>a b. createdAt b \<le> createdAt a) (sort_createdAt_desc ts)"
proof -
  have "sorted (map (\<lambda>t. - createdAt t) (sort_key (\<lambda>t. - createdAt t) ts))"
    by (rule sorted_sort_key)
  then show ?thesis by (simp add: sort_createdAt_desc_def sorted_map)
qed

lemma mset_sort_createdAt_desc: "mset (sort_createdAt_desc ts) = mset ts"
  by (simp add: sort_createdAt_desc_def)

lemma notes_get_all:
  "notes_get cast engine \<lparr>q_taskId = None, q_note_search = None\<rparr> d
     = (\<lparr>code = 200, body = Note_list (sort_pinned_createdAt_desc (note_docs d))\<rparr>, d)"
  by (simp add: notes_get_def find_notes_def truthy_def)

lemma sorted_pinned_createdAt_desc:
  "sorted_wrt (\<lambda>a b. (pinned b \<longrightarrow> pinned a) \<and> (pinned a = pinned b \<longrightarrow> note_createdAt b \<le> note_createdAt a))
     (sort_pinned_createdAt_desc ns)"
proof -
  let ?key = "\<lambda>n. (\<not> pinned n, - note_createdAt n)"
  have "sorted (map ?key (sort_key ?key ns))"
    by (rule sorted_sort_key)
  then have "sorted_wrt (\<lambda>a b. ?key a \<le> ?key b) (sort_pinned_createdAt_desc ns)"
    by (simp add: sort_pinned_createdAt_desc_def sorted_map)
  then show ?thesis
    by (rule sorted_wrt_mono_rel[rotated]) auto
qed

subsection \<open>Patterns without special characters\<close>

lemma match_here_plain:
  "list_all (\<lambda>c. \<not> metachar c) pat \<Longrightarrow>
     match_here pat s = prefix (map toLowerCase pat) (map toLowerCase s)"
proof (induction pat s rule: match_here.induct)
  case (3 p ps c cs)
  then have "p \<noteq> CHR ''.''" by (auto simp: metachar_def)
  with 3 show ?case by simp
qed simp_all

lemma match_anywhere_plain:
  "list_all (\<lambda>c. \<not> metachar c) pat \<Longrightarrow> match_anywhere pat s = contains_ignoring_case pat s"
proof (induction s)
  case Nil
  then show ?case by (simp add: match_here_plain contains_ignoring_case_def)
next
  case (Cons c cs)
  then show ?case
    by (simp add: match_here_plain contains_ignoring_case_def sublist_Cons_right)
qed

lemma plain_is_ordinary: "list_all (\<lambda>c. \<not> metachar c) pat \<Longrightarrow> ordinary_or_dot pat"
  by (simp add: ordinary_or_dot_def list_all_iff)

lemma regex_i_plain:
  "list_all (\<lambda>c. \<not> metachar c) pat \<Longrightarrow> regex_i engine pat = Some (contains_ignoring_case pat)"
  by (auto simp: regex_i_def plain_is_ordinary match_anywhere_plain)

lemma tasks_get_plain:
  assumes "plain_text (q_search q)"
  shows "tasks_get engine q d =
    (\<lparr>code = 200, body = Task_list (sort_createdAt_desc (filter (satisfies q) (task_docs d)))\<rparr>, d)"
proof -
  have eq: "\<And>p v. equals (if truthy p then p else None) v = asks p (\<lambda>s. v = s)"
    by (auto simp: equals_def truthy_def asks_def split: option.splits)
  show ?thesis
  proof (cases "truthy (q_search q)")
    case False
    then have "asks (q_search q) h" for h
      by (auto simp: truthy_def asks_def split: option.splits)
    with False show ?thesis
      by (simp add: tasks_get_def find_tasks_def eq satisfies_def[abs_def])
  next
    case True
    then obtain s where s: "q_search q = Some s" "s \<noteq> []"
      by (auto simp: truthy_def split: option.splits)
    with assms have "regex_i engine s = Some (contains_ignoring_case s)"
      by (simp add: plain_text_def regex_i_plain)
    with True s show ?thesis
      by (simp add: tasks_get_def find_tasks_def eq satisfies_def[abs_def] asks_def)
  qed
qed

subsection \<open>Counting\<close>

lemma promise_all_rejected:
  "\<exists>r \<in> set rs. isl r \<Longrightarrow> isl (promise_all rs)"
  by (induction rs rule: promise_all.induct) (auto split: sum.splits)

lemma countDocuments_isl: "isl (countDocuments f P xs) = (f \<noteq> None)"
  by (cases f) (simp_all add: countDocuments_def)

lemma countDocuments_ok: "countDocuments None P xs = Inr (length (filter P xs))"
  by (simp add: countDocuments_def)

lemma below_nine: "(k::nat) < 9 \<Longrightarrow> k \<in> {0, 1, 2, 3, 4, 5, 6, 7, 8}"
  by auto

section \<open>Properties of the handlers\<close>

text \<open>
  Claim C1. When the store cannot parse the identifier of the path, \<^verbatim>\<open>GET /tasks/:id\<close> and
  \<^verbatim>\<open>DELETE /tasks/:id\<close> answer 500 and \<^verbatim>\<open>PUT /tasks/:id\<close> answers 400, each with a body that
  has an \<open>error\<close> key. When the identifier parses and no stored task has it, all three
  answer 404 with the body \<^verbatim>\<open>{error: "Task not found"}\<close>, the \<^verbatim>\<open>PUT\<close> for a payload whose
  values the store can cast (a payload it cannot cast is answered 400 before any lookup).
\<close>

theorem malformed_or_absent_identifier:
  "(cast rid = None \<longrightarrow>
      code (fst (tasks_get_id cast rid d)) = 500 \<and> has_error_key (body (fst (tasks_get_id cast rid d)))
    \<and> code (fst (tasks_delete_id cast rid d)) = 500 \<and> has_error_key (body (fst (tasks_delete_id cast rid d)))
    \<and> code (fst (tasks_put_id cast now rid b d)) = 400 \<and> has_error_key (body (fst (tasks_put_id cast now rid b d))))
 \<and> (\<forall>k. cast rid = Some k \<and> k \<notin> task_id ` set (task_docs d) \<longrightarrow>
      fst (tasks_get_id cast rid d) = \<lparr>code = 404, body = Error_obj (Fixed ''Task not found'')\<rparr>
    \<and> fst (tasks_delete_id cast rid d) = \<lparr>code = 404, body = Error_obj (Fixed ''Task not found'')\<rparr>
    \<and> (cast_errors (b\<lparr>b_updatedAt := Some now\<rparr>) = [] \<longrightarrow>
         fst (tasks_put_id cast now rid b d) = \<lparr>code = 404, body = Error_obj (Fixed ''Task not found'')\<rparr>))"
  by (auto simp: tasks_get_id_def tasks_delete_id_def tasks_put_id_def findById_def
      findByIdAndDelete_def findByIdAndUpdate_def find_absent update_first_absent)

theorem malformed_or_absent_identifier_witness:
  "objectid_of_hex ''invalid-id'' = None
 \<and> code (fst (tasks_get_id objectid_of_hex ''invalid-id'' sample_db)) = 500
 \<and> code (fst (tasks_delete_id objectid_of_hex ''invalid-id'' sample_db)) = 500
 \<and> code (fst (tasks_put_id objectid_of_hex 5000 ''invalid-id'' (empty_body\<lparr>b_title := Some ''Updated''\<rparr>) sample_db)) = 400
 \<and> objectid_of_hex ''507f1f77bcf86cd799439011'' = Some 24912482966938930280208240657
 \<and> 24912482966938930280208240657 \<notin> task_id ` set (task_docs sample_db)
 \<and> cast_errors (empty_body\<lparr>b_title := Some ''Updated'', b_updatedAt := Some 5000\<rparr>) = []
 \<and> fst (tasks_get_id objectid_of_hex ''507f1f77bcf86cd799439011'' sample_db)
      = \<lparr>code = 404, body = Error_obj (Fixed ''Task not found'')\<rparr>
 \<and> fst (tasks_delete_id objectid_of_hex ''507f1f77bcf86cd799439011'' sample_db)
      = \<lparr>code = 404, body = Error_obj (Fixed ''Task not found'')\<rparr>
 \<and> fst (tasks_put_id objectid_of_hex 5000 ''507f1f77bcf86cd799439011'' (empty_body\<lparr>b_title := Some ''Updated''\<rparr>) sample_db)
      = \<lparr>code = 404, body = Error_obj (Fixed ''Task not found'')\<rparr>"
proof -
  let ?b = "empty_body\<lparr>b_title := Some ''Updated''\<rparr>"
  have malformed: "objectid_of_hex ''invalid-id'' = None"
    by (simp add: objectid_of_hex_def)
  have parsed: "objectid_of_hex ''507f1f77bcf86cd799439011'' = Some 24912482966938930280208240657"
    by (simp add: objectid_of_hex_def hex_digit_def)
  have absent: "24912482966938930280208240657 \<notin> task_id ` set (task_docs sample_db)"
    by (simp add: sample_db_def sample_task_def)
  have casts: "cast_errors (empty_body\<lparr>b_title := Some ''Updated'', b_updatedAt := Some 5000\<rparr>) = []"
    by (simp add: cast_errors_def cast_failed_def castDate_def in_Date_range_def empty_body_def)
  then have casts': "cast_errors (?b\<lparr>b_updatedAt := Some 5000\<rparr>) = []"
    by simp
  note thrown = malformed_or_absent_identifier[where cast = objectid_of_hex and rid = "''invalid-id''"
        and d = sample_db and now = 5000 and b = ?b, THEN conjunct1, rule_format, OF malformed]
  note missing = malformed_or_absent_identifier[where cast = objectid_of_hex
        and rid = "''507f1f77bcf86cd799439011''" and d = sample_db and now = 5000 and b = ?b,
        THEN conjunct2, rule_format, OF conjI, OF parsed absent]
  show ?thesis
    using malformed parsed absent casts thrown missing casts'
    by simp
qed
text \<open>
  Claim C2. For a stored task, a \<^verbatim>\<open>PUT\<close> whose body sets \<open>priority\<close> to
  \<^verbatim>\<open>invalid-priority\<close>, with a payload whose values the store can cast, answers 200, and the
  document it returns, which is the one then stored under that identifier, has that
  priority: the enumeration is not checked on update.
\<close>

theorem put_stores_invalid_priority:
  assumes "cast rid = Some k"
    and "find (\<lambda>t. task_id t = k) (task_docs d) = Some t0"
    and "b_priority b = Some ''invalid-priority''"
    and "cast_errors (b\<lparr>b_updatedAt := Some now\<rparr>) = []"
  shows "\<exists>t d'. tasks_put_id cast now rid b d = (\<lparr>code = 200, body = Task_doc t\<rparr>, d')
           \<and> priority t = ''invalid-priority''
           \<and> findById cast rid (task_docs d') = Inr (Some t)"
proof -
  have "priority (apply_update (b\<lparr>b_updatedAt := Some now\<rparr>) t0) = ''invalid-priority''"
    using assms(3) by (simp add: apply_update_def)
  with tasks_put_id_stored[where cast = cast and rid = rid and now = now and b = b, OF assms(1,2,4)]
  show ?thesis
    by blast
qed

theorem put_stores_invalid_priority_witness:
  "objectid_of_hex ''000000000000000000000001'' = Some 1
 \<and> find (\<lambda>t. task_id t = 1) (task_docs sample_db)
      = Some (sample_task 1 ''Buy Groceries'' ''personal'' ''high'' ''pending'' 100)
 \<and> b_priority (empty_body\<lparr>b_priority := Some ''invalid-priority''\<rparr>) = Some ''invalid-priority''
 \<and> cast_errors (empty_body\<lparr>b_priority := Some ''invalid-priority'', b_updatedAt := Some 5000\<rparr>) = []
 \<and> (\<exists>t d'. tasks_put_id objectid_of_hex 5000 ''000000000000000000000001''
                (empty_body\<lparr>b_priority := Some ''invalid-priority''\<rparr>) sample_db
              = (\<lparr>code = 200, body = Task_doc t\<rparr>, d')
           \<and> priority t = ''invalid-priority''
           \<and> findById objectid_of_hex ''000000000000000000000001'' (task_docs d') = Inr (Some t))"
proof -
  have parsed: "objectid_of_hex ''000000000000000000000001'' = Some 1"
    by (simp add: objectid_of_hex_def hex_digit_def)
  have stored: "find (\<lambda>t. task_id t = 1) (task_docs sample_db)
      = Some (sample_task 1 ''Buy Groceries'' ''personal'' ''high'' ''pending'' 100)"
    by (simp add: sample_db_def sample_task_def)
  have sets: "b_priority (empty_body\<lparr>b_priority := Some ''invalid-priority''\<rparr>) = Some ''invalid-priority''"
    by simp
  have casts: "cast_errors (empty_body\<lparr>b_priority := Some ''invalid-priority'', b_updatedAt := Some 5000\<rparr>) = []"
    by (simp add: cast_errors_def cast_failed_def castDate_def in_Date_range_def empty_body_def)
  have answer: "\<exists>t d'. tasks_put_id objectid_of_hex 5000 ''000000000000000000000001''
                (empty_body\<lparr>b_priority := Some ''invalid-priority''\<rparr>) sample_db
              = (\<lparr>code = 200, body = Task_doc t\<rparr>, d')
           \<and> priority t = ''invalid-priority''
           \<and> findById objectid_of_hex ''000000000000000000000001'' (task_docs d') = Inr (Some t)"
    by (rule put_stores_invalid_priority[where k = 1
          and ?t0.0 = "sample_task 1 ''Buy Groceries'' ''personal'' ''high'' ''pending'' 100"])
       (rule parsed stored sets casts)+
  show ?thesis
    by (intro conjI parsed stored sets casts answer)
qed
text \<open>
  Claim C3. For a \<^verbatim>\<open>POST /tasks\<close> whose body has a title and has no \<open>description\<close>,
  \<open>category\<close>, \<open>priority\<close> or \<open>status\<close>, the created document has the empty description,
  the category \<^verbatim>\<open>general\<close>, the priority \<^verbatim>\<open>medium\<close> and the status \<^verbatim>\<open>pending\<close>, and it is
  the document stored. Such a document is created whenever the title is not empty and the
  values of the body can be cast.
\<close>

theorem post_applies_defaults:
  assumes "b_title b = Some ttl"
    and "b_description b = None" and "b_category b = None"
    and "b_priority b = None" and "b_status b = None"
  shows "(\<forall>t d'. tasks_post i t_new t_save b d = (\<lparr>code = 201, body = Task_doc t\<rparr>, d') \<longrightarrow>
            description t = [] \<and> category t = ''general''
          \<and> priority t = ''medium'' \<and> status t = ''pending''
          \<and> title t = ttl \<and> task_docs d' = task_docs d @ [t])
       \<and> (ttl \<noteq> [] \<and> cast_errors b = [] \<longrightarrow>
            (\<exists>t. tasks_post i t_new t_save b d =
                   (\<lparr>code = 201, body = Task_doc t\<rparr>, d\<lparr>task_docs := task_docs d @ [t]\<rparr>)))"
proof (intro conjI allI impI)
  fix t d' assume "tasks_post i t_new t_save b d = (\<lparr>code = 201, body = Task_doc t\<rparr>, d')"
  from tasks_post_201(2,3)[OF this] assms
  show "description t = []" and "category t = ''general''" and "priority t = ''medium''"
    and "status t = ''pending''" and "title t = ttl" and "task_docs d' = task_docs d @ [t]"
    by (simp_all add: new_Task_def)
next
  assume h: "ttl \<noteq> [] \<and> cast_errors b = []"
  with assms have "validate_task (fst (new_Task i t_new b)) = []"
    by (intro validate_task_ok) (simp_all add: new_Task_def)
  with h tasks_post_created[of b i t_new t_save d]
  show "\<exists>t. tasks_post i t_new t_save b d =
               (\<lparr>code = 201, body = Task_doc t\<rparr>, d\<lparr>task_docs := task_docs d @ [t]\<rparr>)"
    by simp
qed

theorem post_applies_defaults_witness:
  "cast_errors (empty_body\<lparr>b_title := Some ''Minimal task''\<rparr>) = []
 \<and> (\<exists>t. tasks_post 4 1000 1001 (empty_body\<lparr>b_title := Some ''Minimal task''\<rparr>) sample_db
          = (\<lparr>code = 201, body = Task_doc t\<rparr>, sample_db\<lparr>task_docs := task_docs sample_db @ [t]\<rparr>)
       \<and> title t = ''Minimal task'' \<and> description t = [] \<and> category t = ''general''
       \<and> priority t = ''medium'' \<and> status t = ''pending'')"
proof -
  let ?b = "empty_body\<lparr>b_title := Some ''Minimal task''\<rparr>"
  have casts: "cast_errors ?b = []"
    by (simp add: cast_errors_def cast_failed_def empty_body_def)
  note defaults = post_applies_defaults[where b = ?b and ttl = "''Minimal task''" and i = 4
      and t_new = 1000 and t_save = 1001 and d = sample_db]
  have omitted: "b_title ?b = Some ''Minimal task''" "b_description ?b = None" "b_category ?b = None"
    "b_priority ?b = None" "b_status ?b = None"
    by (simp_all add: empty_body_def)
  from defaults[OF omitted, THEN conjunct2] casts
  obtain t where created: "tasks_post 4 1000 1001 ?b sample_db
      = (\<lparr>code = 201, body = Task_doc t\<rparr>, sample_db\<lparr>task_docs := task_docs sample_db @ [t]\<rparr>)"
    by auto
  from defaults[OF omitted, THEN conjunct1, rule_format, OF created] created casts
  show ?thesis
    by blast
qed
text \<open>
  Claim C4. A \<^verbatim>\<open>POST /tasks\<close> with a priority outside \<^verbatim>\<open>low\<close>, \<^verbatim>\<open>medium\<close>, \<^verbatim>\<open>high\<close>
  (such as \<^verbatim>\<open>critical\<close>) answers 400 with an error body and stores nothing; with the priority
  \<^verbatim>\<open>high\<close>, and a body that is valid otherwise (a title that is not empty, a status of the
  enumeration if any, values that can be cast), it answers 201 and the document has the
  priority \<^verbatim>\<open>high\<close>.
\<close>

theorem post_checks_priority:
  "(\<forall>p. b_priority b = Some p \<and> p \<notin> {''low'', ''medium'', ''high''} \<longrightarrow>
       code (fst (tasks_post i t_new t_save b d)) = 400
     \<and> has_error_key (body (fst (tasks_post i t_new t_save b d)))
     \<and> snd (tasks_post i t_new t_save b d) = d)
 \<and> (\<forall>ttl. b_priority b = Some ''high'' \<and> b_title b = Some ttl \<and> ttl \<noteq> []
        \<and> (case b_status b of None \<Rightarrow> True | Some s \<Rightarrow> s \<in> {''pending'', ''in-progress'', ''completed''})
        \<and> cast_errors b = [] \<longrightarrow>
       (\<exists>t. tasks_post i t_new t_save b d =
               (\<lparr>code = 201, body = Task_doc t\<rparr>, d\<lparr>task_docs := task_docs d @ [t]\<rparr>)
           \<and> priority t = ''high''))"
proof (intro conjI allI impI)
  fix p assume p: "b_priority b = Some p \<and> p \<notin> {''low'', ''medium'', ''high''}"
  then have "cast_errors b \<noteq> [] \<or> validate_task (fst (new_Task i t_new b)) \<noteq> []"
    by (simp add: validate_task_def new_Task_def)
  from tasks_post_rejected[OF this]
  show "code (fst (tasks_post i t_new t_save b d)) = 400"
    and "has_error_key (body (fst (tasks_post i t_new t_save b d)))"
    and "snd (tasks_post i t_new t_save b d) = d"
    by simp_all
next
  fix ttl
  assume h: "b_priority b = Some ''high'' \<and> b_title b = Some ttl \<and> ttl \<noteq> []
        \<and> (case b_status b of None \<Rightarrow> True | Some s \<Rightarrow> s \<in> {''pending'', ''in-progress'', ''completed''})
        \<and> cast_errors b = []"
  then have "validate_task (fst (new_Task i t_new b)) = []"
    by (intro validate_task_ok) (auto simp: new_Task_def split: option.splits)
  with h tasks_post_created[of b i t_new t_save d]
  show "\<exists>t. tasks_post i t_new t_save b d =
               (\<lparr>code = 201, body = Task_doc t\<rparr>, d\<lparr>task_docs := task_docs d @ [t]\<rparr>)
           \<and> priority t = ''high''"
    by (simp add: new_Task_def)
qed

theorem post_checks_priority_witness:
  "code (fst (tasks_post 4 1000 1001 (empty_body\<lparr>b_title := Some ''Invalid priority task'', b_priority := Some ''critical''\<rparr>) sample_db)) = 400
 \<and> has_error_key (body (fst (tasks_post 4 1000 1001 (empty_body\<lparr>b_title := Some ''Invalid priority task'', b_priority := Some ''critical''\<rparr>) sample_db)))
 \<and> (\<exists>t. tasks_post 4 1000 1001 (empty_body\<lparr>b_title := Some ''Urgent'', b_priority := Some ''high''\<rparr>) sample_db
          = (\<lparr>code = 201, body = Task_doc t\<rparr>, sample_db\<lparr>task_docs := task_docs sample_db @ [t]\<rparr>)
       \<and> priority t = ''high'')"
proof -
  let ?bad = "empty_body\<lparr>b_title := Some ''Invalid priority task'', b_priority := Some ''critical''\<rparr>"
  let ?good = "empty_body\<lparr>b_title := Some ''Urgent'', b_priority := Some ''high''\<rparr>"
  have bad: "b_priority ?bad = Some ''critical'' \<and> ''critical'' \<notin> {''low'', ''medium'', ''high''}"
    by simp
  have good: "b_priority ?good = Some ''high'' \<and> b_title ?good = Some ''Urgent'' \<and> ''Urgent'' \<noteq> []
        \<and> (case b_status ?good of None \<Rightarrow> True | Some s \<Rightarrow> s \<in> {''pending'', ''in-progress'', ''completed''})
        \<and> cast_errors ?good = []"
    by (simp add: empty_body_def cast_errors_def cast_failed_def)
  from post_checks_priority[where b = ?bad and i = 4 and t_new = 1000 and t_save = 1001
      and d = sample_db, THEN conjunct1, rule_format, OF bad]
  have rejected: "code (fst (tasks_post 4 1000 1001 ?bad sample_db)) = 400"
    "has_error_key (body (fst (tasks_post 4 1000 1001 ?bad sample_db)))"
    by simp_all
  from post_checks_priority[where b = ?good and i = 4 and t_new = 1000 and t_save = 1001
      and d = sample_db, THEN conjunct2, rule_format, OF good]
  have created: "\<exists>t. tasks_post 4 1000 1001 ?good sample_db
          = (\<lparr>code = 201, body = Task_doc t\<rparr>, sample_db\<lparr>task_docs := task_docs sample_db @ [t]\<rparr>)
       \<and> priority t = ''high''" .
  show ?thesis
    by (intro conjI rejected created)
qed
text \<open>
  Claim C5 has the search compare the title with the text as it stands. The handler gives
  the text to the store as a pattern without escaping it: searching for \<^verbatim>\<open>.\<close> returns a
  task titled \<^verbatim>\<open>abc\<close>, whose title does not contain a dot, and searching for \<^verbatim>\<open>(\<close>, which
  is no pattern, is answered 500 instead of an empty list.
\<close>

theorem search_is_a_pattern:
  "fst (tasks_get no_engine (no_query\<lparr>q_search := Some ''.''\<rparr>)
          \<lparr>task_docs = [sample_task 1 ''abc'' ''general'' ''medium'' ''pending'' 100], category_docs = [], note_docs = []\<rparr>)
     = \<lparr>code = 200, body = Task_list [sample_task 1 ''abc'' ''general'' ''medium'' ''pending'' 100]\<rparr>
   \<and> \<not> contains_ignoring_case ''.'' (title (sample_task 1 ''abc'' ''general'' ''medium'' ''pending'' 100))
   \<and> fst (tasks_get no_engine (no_query\<lparr>q_search := Some ''(''\<rparr>)
          \<lparr>task_docs = [sample_task 1 ''abc'' ''general'' ''medium'' ''pending'' 100], category_docs = [], note_docs = []\<rparr>)
     = \<lparr>code = 500, body = Error_obj (Message (RegexError ''(''))\<rparr>"
  by (simp add: tasks_get_def find_tasks_def no_query_def truthy_def regex_i_def ordinary_or_dot_def
      metachar_def equals_def sort_createdAt_desc_def sample_task_def contains_ignoring_case_def
      toLowerCase_def sublist_Cons_right no_engine_def)

text \<open>
  Claim C6, as stated, has the list B, C, A for any notes created in the order A (not
  pinned), B (pinned), C (not pinned). The order of the list follows \<open>createdAt\<close>, not the
  order of creation: when the body of A carries a \<open>createdAt\<close> later than the creation of C,
  or when A and C are created within the same millisecond, the list is B, A, C.
\<close>

theorem creation_order_is_not_list_order:
  "notes_get objectid_of_hex no_engine \<lparr>q_taskId = None, q_note_search = None\<rparr>
     (snd (notes_post 22 120 121 (empty_note_body\<lparr>b_content := Some ''C'', b_pinned := Some False\<rparr>)
        (snd (notes_post 21 110 111 (empty_note_body\<lparr>b_content := Some ''B'', b_pinned := Some True\<rparr>)
           (snd (notes_post 20 100 101
                   (empty_note_body\<lparr>b_content := Some ''A'', b_pinned := Some False, b_note_createdAt := Some 500\<rparr>)
                   (sample_db\<lparr>note_docs := []\<rparr>)))))))
   = (\<lparr>code = 200, body = Note_list
        [ (sample_note 21 ''B'' True 110)\<lparr>note_updatedAt := 111\<rparr>,
          (sample_note 20 ''A'' False 500)\<lparr>note_updatedAt := 101\<rparr>,
          (sample_note 22 ''C'' False 120)\<lparr>note_updatedAt := 121\<rparr> ]\<rparr>,
      sample_db\<lparr>note_docs :=
        [ (sample_note 20 ''A'' False 500)\<lparr>note_updatedAt := 101\<rparr>,
          (sample_note 21 ''B'' True 110)\<lparr>note_updatedAt := 111\<rparr>,
          (sample_note 22 ''C'' False 120)\<lparr>note_updatedAt := 121\<rparr> ]\<rparr>)
 \<and> fst (notes_get objectid_of_hex no_engine \<lparr>q_taskId = None, q_note_search = None\<rparr>
     (snd (notes_post 22 100 100 (empty_note_body\<lparr>b_content := Some ''C'', b_pinned := Some False\<rparr>)
        (snd (notes_post 21 100 100 (empty_note_body\<lparr>b_content := Some ''B'', b_pinned := Some True\<rparr>)
           (snd (notes_post 20 100 100 (empty_note_body\<lparr>b_content := Some ''A'', b_pinned := Some False\<rparr>)
                   (sample_db\<lparr>note_docs := []\<rparr>))))))))
   = \<lparr>code = 200, body = Note_list
        [ sample_note 21 ''B'' True 100, sample_note 20 ''A'' False 100, sample_note 22 ''C'' False 100 ]\<rparr>"
  by (simp add: notes_get_def find_notes_def truthy_def sort_pinned_createdAt_desc_def
      notes_post_def save_note_def validate_note_def new_Note_def Let_def empty_note_body_def
      sample_note_def note_cast_errors_def cast_failed_def cast_default_def castDate_def in_Date_range_def)

text \<open>
  Claim C6, amended. \<^verbatim>\<open>GET /notes\<close> without parameters returns all the notes, pinned
  notes before the others and, among notes pinned alike, newest first. In particular, after
  creating in an empty collection the notes A (not pinned), B (pinned) and C (not pinned),
  where the bodies of A and C have no \<open>createdAt\<close> and the clock at the creation of A is
  earlier than at the creation of C, the list is B, C, A.
\<close>

theorem notes_get_pinned_then_newest:
  "(\<exists>r. notes_get cast engine \<lparr>q_taskId = None, q_note_search = None\<rparr> d
           = (\<lparr>code = 200, body = Note_list r\<rparr>, d)
       \<and> mset r = mset (note_docs d)
       \<and> sorted_wrt (\<lambda>a b. (pinned b \<longrightarrow> pinned a)
                          \<and> (pinned a = pinned b \<longrightarrow> note_createdAt b \<le> note_createdAt a)) r)
 \<and> (\<forall>A B C dA dB dC.
       note_docs d = []
     \<and> notes_post iA tA sA bA d = (\<lparr>code = 201, body = Note_doc A\<rparr>, dA)
     \<and> notes_post iB tB sB bB dA = (\<lparr>code = 201, body = Note_doc B\<rparr>, dB)
     \<and> notes_post iC tC sC bC dB = (\<lparr>code = 201, body = Note_doc C\<rparr>, dC)
     \<and> \<not> pinned A \<and> pinned B \<and> \<not> pinned C
     \<and> b_note_createdAt bA = None \<and> b_note_createdAt bC = None \<and> tA < tC \<longrightarrow>
       notes_get cast engine \<lparr>q_taskId = None, q_note_search = None\<rparr> dC
         = (\<lparr>code = 200, body = Note_list [B, C, A]\<rparr>, dC))"
proof (intro conjI allI impI)
  show "\<exists>r. notes_get cast engine \<lparr>q_taskId = None, q_note_search = None\<rparr> d
           = (\<lparr>code = 200, body = Note_list r\<rparr>, d)
       \<and> mset r = mset (note_docs d)
       \<and> sorted_wrt (\<lambda>a b. (pinned b \<longrightarrow> pinned a)
                          \<and> (pinned a = pinned b \<longrightarrow> note_createdAt b \<le> note_createdAt a)) r"
    using sorted_pinned_createdAt_desc[of "note_docs d"]
    by (intro exI[of _ "sort_pinned_createdAt_desc (note_docs d)"])
       (simp add: notes_get_all sort_pinned_createdAt_desc_def)
next
  fix A B C dA dB dC
  assume h: "note_docs d = []
     \<and> notes_post iA tA sA bA d = (\<lparr>code = 201, body = Note_doc A\<rparr>, dA)
     \<and> notes_post iB tB sB bB dA = (\<lparr>code = 201, body = Note_doc B\<rparr>, dB)
     \<and> notes_post iC tC sC bC dB = (\<lparr>code = 201, body = Note_doc C\<rparr>, dC)
     \<and> \<not> pinned A \<and> pinned B \<and> \<not> pinned C
     \<and> b_note_createdAt bA = None \<and> b_note_createdAt bC = None \<and> tA < tC"
  then have pA: "notes_post iA tA sA bA d = (\<lparr>code = 201, body = Note_doc A\<rparr>, dA)"
    and pB: "notes_post iB tB sB bB dA = (\<lparr>code = 201, body = Note_doc B\<rparr>, dB)"
    and pC: "notes_post iC tC sC bC dB = (\<lparr>code = 201, body = Note_doc C\<rparr>, dC)"
    by simp_all
  have docs: "note_docs dC = [A, B, C]"
    using notes_post_201(3)[OF pA] notes_post_201(3)[OF pB] notes_post_201(3)[OF pC] h by simp
  have "note_createdAt A = tA" and "note_createdAt C = tC"
    using notes_post_201(2)[OF pA] notes_post_201(2)[OF pC]
      note_cast_errors_none[OF notes_post_201(1)[OF pA]] note_cast_errors_none[OF notes_post_201(1)[OF pC]] h
    by (simp_all add: new_Note_def)
  with h have "sort_pinned_createdAt_desc [A, B, C] = [B, C, A]"
    by (simp add: sort_pinned_createdAt_desc_def)
  with docs show "notes_get cast engine \<lparr>q_taskId = None, q_note_search = None\<rparr> dC
         = (\<lparr>code = 200, body = Note_list [B, C, A]\<rparr>, dC)"
    by (simp add: notes_get_all)
qed

theorem notes_get_pinned_then_newest_witness:
  "notes_get objectid_of_hex no_engine \<lparr>q_taskId = None, q_note_search = None\<rparr>
     (sample_db\<lparr>note_docs :=
        [ (sample_note 20 ''First regular'' False 100)\<lparr>note_updatedAt := 101\<rparr>,
          (sample_note 21 ''Pinned second'' True 110)\<lparr>note_updatedAt := 111\<rparr>,
          (sample_note 22 ''Regular third'' False 111)\<lparr>note_updatedAt := 112\<rparr> ]\<rparr>)
   = (\<lparr>code = 200, body = Note_list
        [ (sample_note 21 ''Pinned second'' True 110)\<lparr>note_updatedAt := 111\<rparr>,
          (sample_note 22 ''Regular third'' False 111)\<lparr>note_updatedAt := 112\<rparr>,
          (sample_note 20 ''First regular'' False 100)\<lparr>note_updatedAt := 101\<rparr> ]\<rparr>,
      sample_db\<lparr>note_docs :=
        [ (sample_note 20 ''First regular'' False 100)\<lparr>note_updatedAt := 101\<rparr>,
          (sample_note 21 ''Pinned second'' True 110)\<lparr>note_updatedAt := 111\<rparr>,
          (sample_note 22 ''Regular third'' False 111)\<lparr>note_updatedAt := 112\<rparr> ]\<rparr>)"
proof -
  let ?A = "(sample_note 20 ''First regular'' False 100)\<lparr>note_updatedAt := 101\<rparr>"
  let ?B = "(sample_note 21 ''Pinned second'' True 110)\<lparr>note_updatedAt := 111\<rparr>"
  let ?C = "(sample_note 22 ''Regular third'' False 111)\<lparr>note_updatedAt := 112\<rparr>"
  let ?bA = "empty_note_body\<lparr>b_content := Some ''First regular'', b_pinned := Some False\<rparr>"
  let ?bB = "empty_note_body\<lparr>b_content := Some ''Pinned second'', b_pinned := Some True\<rparr>"
  let ?bC = "empty_note_body\<lparr>b_content := Some ''Regular third'', b_pinned := Some False\<rparr>"
  let ?d = "sample_db\<lparr>note_docs := []\<rparr>"
  have created: "note_docs ?d = []
     \<and> notes_post 20 100 101 ?bA ?d = (\<lparr>code = 201, body = Note_doc ?A\<rparr>, sample_db\<lparr>note_docs := [?A]\<rparr>)
     \<and> notes_post 21 110 111 ?bB (sample_db\<lparr>note_docs := [?A]\<rparr>)
          = (\<lparr>code = 201, body = Note_doc ?B\<rparr>, sample_db\<lparr>note_docs := [?A, ?B]\<rparr>)
     \<and> notes_post 22 111 112 ?bC (sample_db\<lparr>note_docs := [?A, ?B]\<rparr>)
          = (\<lparr>code = 201, body = Note_doc ?C\<rparr>, sample_db\<lparr>note_docs := [?A, ?B, ?C]\<rparr>)
     \<and> \<not> pinned ?A \<and> pinned ?B \<and> \<not> pinned ?C
     \<and> b_note_createdAt ?bA = None \<and> b_note_createdAt ?bC = None \<and> (100::int) < 111"
    by (simp add: notes_post_def save_note_def validate_note_def new_Note_def Let_def
        empty_note_body_def sample_note_def note_cast_errors_def cast_failed_def cast_default_def)
  show ?thesis
    by (rule notes_get_pinned_then_newest[where d = ?d, THEN conjunct2, rule_format, OF created])
qed
text \<open>
  Claim C7. \<^verbatim>\<open>GET /stats\<close> answers with the nested object of the counts over the store
  (all tasks, the tasks of each status, the tasks of each priority, all categories, all
  notes) when every count succeeds; when some count fails it answers 500 with an error body
  and no count at all; in both cases the store is left as it was.
\<close>
text \<open>
  Claim C7. \<^verbatim>\<open>GET /stats\<close> answers with the nested object of the counts over the store
  (all tasks, the tasks of each status, the tasks of each priority, all categories, all
  notes) when every count succeeds; when some count fails it answers 500 with an error body
  and no count at all; in both cases the store is left as it was.
\<close>

theorem stats_get_counts:
  "((\<forall>k<9. fault k = None) \<longrightarrow>
      stats_get fault d =
        (\<lparr> code = 200,
           body = Stats_obj
             \<lparr> stats_tasks =
                 \<lparr> total = length (task_docs d),
                   pending = length (filter (\<lambda>t. status t = ''pending'') (task_docs d)),
                   inProgress = length (filter (\<lambda>t. status t = ''in-progress'') (task_docs d)),
                   completed = length (filter (\<lambda>t. status t = ''completed'') (task_docs d)) \<rparr>,
               stats_priority =
                 \<lparr> high = length (filter (\<lambda>t. priority t = ''high'') (task_docs d)),
                   medium = length (filter (\<lambda>t. priority t = ''medium'') (task_docs d)),
                   low = length (filter (\<lambda>t. priority t = ''low'') (task_docs d)) \<rparr>,
               stats_categories = length (category_docs d),
               stats_notes = length (note_docs d) \<rparr> \<rparr>, d))
 \<and> ((\<exists>k<9. fault k \<noteq> None) \<longrightarrow>
      code (fst (stats_get fault d)) = 500 \<and> has_error_key (body (fst (stats_get fault d))))
 \<and> snd (stats_get fault d) = d"
proof (intro conjI impI)
  assume "\<forall>k<9. fault k = None"
  then have "fault 0 = None" "fault 1 = None" "fault 2 = None" "fault 3 = None" "fault 4 = None"
    "fault 5 = None" "fault 6 = None" "fault 7 = None" "fault 8 = None"
    by simp_all
  then show "stats_get fault d =
        (\<lparr> code = 200,
           body = Stats_obj
             \<lparr> stats_tasks =
                 \<lparr> total = length (task_docs d),
                   pending = length (filter (\<lambda>t. status t = ''pending'') (task_docs d)),
                   inProgress = length (filter (\<lambda>t. status t = ''in-progress'') (task_docs d)),
                   completed = length (filter (\<lambda>t. status t = ''completed'') (task_docs d)) \<rparr>,
               stats_priority =
                 \<lparr> high = length (filter (\<lambda>t. priority t = ''high'') (task_docs d)),
                   medium = length (filter (\<lambda>t. priority t = ''medium'') (task_docs d)),
                   low = length (filter (\<lambda>t. priority t = ''low'') (task_docs d)) \<rparr>,
               stats_categories = length (category_docs d),
               stats_notes = length (note_docs d) \<rparr> \<rparr>, d)"
    by (simp add: stats_get_def countDocuments_ok)
next
  assume "\<exists>k<9. fault k \<noteq> None"
  then obtain k where "k \<in> {0, 1, 2, 3, 4, 5, 6, 7, 8}" and "fault k \<noteq> None"
    using below_nine by blast
  then have "isl (promise_all
             [ countDocuments (fault 0) (\<lambda>t. True) (task_docs d),
               countDocuments (fault 1) (\<lambda>t. status t = ''pending'') (task_docs d),
               countDocuments (fault 2) (\<lambda>t. status t = ''in-progress'') (task_docs d),
               countDocuments (fault 3) (\<lambda>t. status t = ''completed'') (task_docs d),
               countDocuments (fault 4) (\<lambda>t. priority t = ''high'') (task_docs d),
               countDocuments (fault 5) (\<lambda>t. priority t = ''medium'') (task_docs d),
               countDocuments (fault 6) (\<lambda>t. priority t = ''low'') (task_docs d),
               countDocuments (fault 7) (\<lambda>c. True) (category_docs d),
               countDocuments (fault 8) (\<lambda>n. True) (note_docs d) ])"
    by (intro promise_all_rejected) (auto simp: countDocuments_isl)
  then show "code (fst (stats_get fault d)) = 500"
    and "has_error_key (body (fst (stats_get fault d)))"
    by (auto simp: stats_get_def isl_def)
next
  show "snd (stats_get fault d) = d"
    by (simp add: stats_get_def split: sum.splits)
qed

theorem stats_get_counts_witness:
  "stats_get (\<lambda>k. None) sample_db =
     (\<lparr> code = 200,
        body = Stats_obj
          \<lparr> stats_tasks = \<lparr> total = 3, pending = 1, inProgress = 1, completed = 1 \<rparr>,
            stats_priority = \<lparr> high = 1, medium = 1, low = 1 \<rparr>,
            stats_categories = 2,
            stats_notes = 3 \<rparr> \<rparr>, sample_db)
 \<and> code (fst (stats_get (\<lambda>k. if k = 4 then Some ''connection lost'' else None) sample_db)) = 500
 \<and> has_error_key (body (fst (stats_get (\<lambda>k. if k = 4 then Some ''connection lost'' else None) sample_db)))
 \<and> snd (stats_get (\<lambda>k. if k = 4 then Some ''connection lost'' else None) sample_db) = sample_db"
proof -
  let ?fault = "\<lambda>k::nat. if k = 4 then Some ''connection lost'' else None"
  have fine: "\<forall>k<9. (\<lambda>k::nat. None :: string option) k = None"
    by simp
  have broken: "\<exists>k<9. ?fault k \<noteq> None"
    by (intro exI[of _ 4]) simp
  from stats_get_counts[where fault = "\<lambda>k. None" and d = sample_db, THEN conjunct1, THEN mp, OF fine]
  have counts: "stats_get (\<lambda>k. None) sample_db =
     (\<lparr> code = 200,
        body = Stats_obj
          \<lparr> stats_tasks = \<lparr> total = 3, pending = 1, inProgress = 1, completed = 1 \<rparr>,
            stats_priority = \<lparr> high = 1, medium = 1, low = 1 \<rparr>,
            stats_categories = 2,
            stats_notes = 3 \<rparr> \<rparr>, sample_db)"
    by (simp add: sample_db_def sample_task_def)
  from stats_get_counts[where fault = ?fault and d = sample_db, THEN conjunct2, THEN conjunct1,
      rule_format, OF broken]
  have failed: "code (fst (stats_get ?fault sample_db)) = 500"
    "has_error_key (body (fst (stats_get ?fault sample_db)))"
    by simp_all
  from stats_get_counts[where fault = ?fault and d = sample_db, THEN conjunct2, THEN conjunct2]
  have kept: "snd (stats_get ?fault sample_db) = sample_db" .
  show ?thesis
    by (intro conjI counts failed kept)
qed
text \<open>
  Claim C8, as stated, has both timestamps of a new document assigned by the server whatever
  the body holds. The schema gives \<open>createdAt\<close> a default only, so a \<open>createdAt\<close> of the
  body is kept: created at the clock value 1000 with \<^verbatim>\<open>createdAt: 5\<close> in the body, the stored
  task has \<open>createdAt = 5\<close>.
\<close>

theorem client_createdAt_is_stored:
  "tasks_post 4 1000 1001 (empty_body\<lparr>b_title := Some ''Backdated'', b_createdAt := Some 5, b_updatedAt := Some 6\<rparr>) sample_db
     = (\<lparr>code = 201, body = Task_doc ((sample_task 4 ''Backdated'' ''general'' ''medium'' ''pending'' 5)\<lparr>updatedAt := 1001\<rparr>)\<rparr>,
        sample_db\<lparr>task_docs := task_docs sample_db @ [(sample_task 4 ''Backdated'' ''general'' ''medium'' ''pending'' 5)\<lparr>updatedAt := 1001\<rparr>]\<rparr>)"
  by (simp add: tasks_post_def save_task_def validate_task_def new_Task_def empty_body_def
      sample_task_def Let_def cast_errors_def cast_failed_def cast_default_def castDate_def in_Date_range_def)

text \<open>
  Claim C8, amended. In the document that a successful \<^verbatim>\<open>POST /tasks\<close> or
  \<^verbatim>\<open>POST /notes\<close> creates and stores, \<open>updatedAt\<close> is the server's clock at the save whatever
  the body holds, and \<open>createdAt\<close> is the server's clock at construction when the body has
  no \<open>createdAt\<close>, and the value of the body when it has one.
\<close>

theorem creation_timestamps:
  "(\<forall>t d'. tasks_post i t_new t_save b d = (\<lparr>code = 201, body = Task_doc t\<rparr>, d') \<longrightarrow>
       updatedAt t = t_save
     \<and> createdAt t = (case b_createdAt b of None \<Rightarrow> t_new | Some c \<Rightarrow> c)
     \<and> task_docs d' = task_docs d @ [t])
 \<and> (\<forall>n d'. notes_post j t_new t_save nb d = (\<lparr>code = 201, body = Note_doc n\<rparr>, d') \<longrightarrow>
       note_updatedAt n = t_save
     \<and> note_createdAt n = (case b_note_createdAt nb of None \<Rightarrow> t_new | Some c \<Rightarrow> c)
     \<and> note_docs d' = note_docs d @ [n])"
proof (intro conjI allI impI)
  fix t d' assume a: "tasks_post i t_new t_save b d = (\<lparr>code = 201, body = Task_doc t\<rparr>, d')"
  note r = tasks_post_201[OF a]
  show "updatedAt t = t_save" using r(2) by simp
  show "createdAt t = (case b_createdAt b of None \<Rightarrow> t_new | Some c \<Rightarrow> c)"
    using r(2) cast_errors_none(1)[OF r(1)] by (simp add: new_Task_def)
  show "task_docs d' = task_docs d @ [t]" using r(3) by simp
next
  fix n d' assume a: "notes_post j t_new t_save nb d = (\<lparr>code = 201, body = Note_doc n\<rparr>, d')"
  note r = notes_post_201[OF a]
  show "note_updatedAt n = t_save" using r(2) by simp
  show "note_createdAt n = (case b_note_createdAt nb of None \<Rightarrow> t_new | Some c \<Rightarrow> c)"
    using r(2) note_cast_errors_none[OF r(1)] by (simp add: new_Note_def)
  show "note_docs d' = note_docs d @ [n]" using r(3) by simp
qed

theorem creation_timestamps_witness:
  "tasks_post 4 1000 1001 (empty_body\<lparr>b_title := Some ''Backdated'', b_createdAt := Some 5, b_updatedAt := Some 6\<rparr>) sample_db
     = (\<lparr>code = 201, body = Task_doc ((sample_task 4 ''Backdated'' ''general'' ''medium'' ''pending'' 5)\<lparr>updatedAt := 1001\<rparr>)\<rparr>,
        sample_db\<lparr>task_docs := task_docs sample_db @ [(sample_task 4 ''Backdated'' ''general'' ''medium'' ''pending'' 5)\<lparr>updatedAt := 1001\<rparr>]\<rparr>)
 \<and> updatedAt ((sample_task 4 ''Backdated'' ''general'' ''medium'' ''pending'' 5)\<lparr>updatedAt := 1001\<rparr>) = 1001
 \<and> createdAt ((sample_task 4 ''Backdated'' ''general'' ''medium'' ''pending'' 5)\<lparr>updatedAt := 1001\<rparr>) = 5
 \<and> notes_post 23 1000 1001 (empty_note_body\<lparr>b_content := Some ''Remember'', b_note_updatedAt := Some 6\<rparr>) sample_db
     = (\<lparr>code = 201, body = Note_doc ((sample_note 23 ''Remember'' False 1000)\<lparr>note_updatedAt := 1001\<rparr>)\<rparr>,
        sample_db\<lparr>note_docs := note_docs sample_db @ [(sample_note 23 ''Remember'' False 1000)\<lparr>note_updatedAt := 1001\<rparr>]\<rparr>)
 \<and> note_updatedAt ((sample_note 23 ''Remember'' False 1000)\<lparr>note_updatedAt := 1001\<rparr>) = 1001
 \<and> note_createdAt ((sample_note 23 ''Remember'' False 1000)\<lparr>note_updatedAt := 1001\<rparr>) = 1000"
proof -
  let ?b = "empty_body\<lparr>b_title := Some ''Backdated'', b_createdAt := Some 5, b_updatedAt := Some 6\<rparr>"
  let ?t = "(sample_task 4 ''Backdated'' ''general'' ''medium'' ''pending'' 5)\<lparr>updatedAt := 1001\<rparr>"
  let ?nb = "empty_note_body\<lparr>b_content := Some ''Remember'', b_note_updatedAt := Some 6\<rparr>"
  let ?n = "(sample_note 23 ''Remember'' False 1000)\<lparr>note_updatedAt := 1001\<rparr>"
  have task_created: "tasks_post 4 1000 1001 ?b sample_db
     = (\<lparr>code = 201, body = Task_doc ?t\<rparr>, sample_db\<lparr>task_docs := task_docs sample_db @ [?t]\<rparr>)"
    by (simp add: tasks_post_def save_task_def validate_task_def new_Task_def empty_body_def
        sample_task_def Let_def cast_errors_def cast_failed_def cast_default_def castDate_def
        in_Date_range_def)
  have note_created: "notes_post 23 1000 1001 ?nb sample_db
     = (\<lparr>code = 201, body = Note_doc ?n\<rparr>, sample_db\<lparr>note_docs := note_docs sample_db @ [?n]\<rparr>)"
    by (simp add: notes_post_def save_note_def validate_note_def new_Note_def empty_note_body_def
        sample_note_def Let_def note_cast_errors_def cast_failed_def cast_default_def castDate_def
        in_Date_range_def)
  from creation_timestamps[where b = ?b and d = sample_db, THEN conjunct1, rule_format, OF task_created]
  have t: "updatedAt ?t = 1001" "createdAt ?t = 5"
    by simp_all
  from creation_timestamps[where nb = ?nb and d = sample_db, THEN conjunct2, rule_format, OF note_created]
  have n: "note_updatedAt ?n = 1001" "note_createdAt ?n = 1000"
    by (simp_all add: empty_note_body_def)
  show ?thesis
    by (intro conjI task_created note_created t n)
qed
text \<open>
  Claim C9. In \<^verbatim>\<open>GET /tasks\<close>, a parameter \<open>category\<close>, \<open>status\<close>, \<open>priority\<close> or
  \<open>search\<close> given with the empty value changes nothing: the answer is the one of the same
  request without that parameter.
\<close>
text \<open>
  Claim C9. In \<^verbatim>\<open>GET /tasks\<close>, a parameter \<open>category\<close>, \<open>status\<close>, \<open>priority\<close> or
  \<open>search\<close> given with the empty value changes nothing: the answer is the one of the same
  request without that parameter.
\<close>

theorem empty_parameter_is_ignored:
  "tasks_get engine (q\<lparr>q_category := Some []\<rparr>) d = tasks_get engine (q\<lparr>q_category := None\<rparr>) d
 \<and> tasks_get engine (q\<lparr>q_status := Some []\<rparr>) d = tasks_get engine (q\<lparr>q_status := None\<rparr>) d
 \<and> tasks_get engine (q\<lparr>q_priority := Some []\<rparr>) d = tasks_get engine (q\<lparr>q_priority := None\<rparr>) d
 \<and> tasks_get engine (q\<lparr>q_search := Some []\<rparr>) d = tasks_get engine (q\<lparr>q_search := None\<rparr>) d"
  by (simp add: tasks_get_def truthy_def)

theorem empty_parameter_is_ignored_witness:
  "tasks_get no_engine (no_query\<lparr>q_category := Some []\<rparr>) sample_db
     = tasks_get no_engine (no_query\<lparr>q_category := None\<rparr>) sample_db
 \<and> tasks_get no_engine (no_query\<lparr>q_status := Some []\<rparr>) sample_db
     = tasks_get no_engine (no_query\<lparr>q_status := None\<rparr>) sample_db
 \<and> tasks_get no_engine (no_query\<lparr>q_priority := Some []\<rparr>) sample_db
     = tasks_get no_engine (no_query\<lparr>q_priority := None\<rparr>) sample_db
 \<and> tasks_get no_engine (no_query\<lparr>q_search := Some []\<rparr>) sample_db
     = tasks_get no_engine (no_query\<lparr>q_search := None\<rparr>) sample_db"
  by (rule empty_parameter_is_ignored)
text \<open>
  Claim C10. For a stored task, a \<^verbatim>\<open>PUT\<close> whose body has a \<open>createdAt\<close>, with a payload
  whose values the store can cast, replaces the stored \<open>createdAt\<close> by it, while
  \<open>updatedAt\<close> becomes the server's clock, also when the body has an \<open>updatedAt\<close> of its
  own.
\<close>

theorem put_overwrites_createdAt:
  assumes "cast rid = Some k"
    and "find (\<lambda>t. task_id t = k) (task_docs d) = Some t0"
    and "b_createdAt b = Some c"
    and "cast_errors (b\<lparr>b_updatedAt := Some now\<rparr>) = []"
  shows "\<exists>t d'. tasks_put_id cast now rid b d = (\<lparr>code = 200, body = Task_doc t\<rparr>, d')
           \<and> createdAt t = c \<and> updatedAt t = now
           \<and> findById cast rid (task_docs d') = Inr (Some t)"
proof -
  have "createdAt (apply_update (b\<lparr>b_updatedAt := Some now\<rparr>) t0) = c"
    and "updatedAt (apply_update (b\<lparr>b_updatedAt := Some now\<rparr>) t0) = now"
    using assms(3) cast_errors_none[OF assms(4)] by (simp_all add: apply_update_def)
  with tasks_put_id_stored[where cast = cast and rid = rid and now = now and b = b, OF assms(1,2,4)]
  show ?thesis
    by blast
qed

theorem put_overwrites_createdAt_witness:
  "objectid_of_hex ''000000000000000000000002'' = Some 2
 \<and> find (\<lambda>t. task_id t = 2) (task_docs sample_db)
      = Some (sample_task 2 ''Write Report'' ''work'' ''medium'' ''in-progress'' 200)
 \<and> b_createdAt (empty_body\<lparr>b_createdAt := Some 5, b_updatedAt := Some 6\<rparr>) = Some 5
 \<and> cast_errors (empty_body\<lparr>b_createdAt := Some 5, b_updatedAt := Some 5000\<rparr>) = []
 \<and> (\<exists>t d'. tasks_put_id objectid_of_hex 5000 ''000000000000000000000002''
                (empty_body\<lparr>b_createdAt := Some 5, b_updatedAt := Some 6\<rparr>) sample_db
              = (\<lparr>code = 200, body = Task_doc t\<rparr>, d')
           \<and> createdAt t = 5 \<and> updatedAt t = 5000
           \<and> findById objectid_of_hex ''000000000000000000000002'' (task_docs d') = Inr (Some t))"
proof -
  have parsed: "objectid_of_hex ''000000000000000000000002'' = Some 2"
    by (simp add: objectid_of_hex_def hex_digit_def)
  have stored: "find (\<lambda>t. task_id t = 2) (task_docs sample_db)
      = Some (sample_task 2 ''Write Report'' ''work'' ''medium'' ''in-progress'' 200)"
    by (simp add: sample_db_def sample_task_def)
  have sets: "b_createdAt (empty_body\<lparr>b_createdAt := Some 5, b_updatedAt := Some 6\<rparr>) = Some 5"
    by simp
  have casts: "cast_errors (empty_body\<lparr>b_createdAt := Some 5, b_updatedAt := Some 5000\<rparr>) = []"
    by (simp add: cast_errors_def cast_failed_def castDate_def in_Date_range_def empty_body_def)
  then have casts': "cast_errors (empty_body\<lparr>b_createdAt := Some 5, b_updatedAt := Some 6\<rparr>\<lparr>b_updatedAt := Some 5000\<rparr>) = []"
    by simp
  have answer: "\<exists>t d'. tasks_put_id objectid_of_hex 5000 ''000000000000000000000002''
                (empty_body\<lparr>b_createdAt := Some 5, b_updatedAt := Some 6\<rparr>) sample_db
              = (\<lparr>code = 200, body = Task_doc t\<rparr>, d')
           \<and> createdAt t = 5 \<and> updatedAt t = 5000
           \<and> findById objectid_of_hex ''000000000000000000000002'' (task_docs d') = Inr (Some t)"
    by (rule put_overwrites_createdAt[where k = 2
          and ?t0.0 = "sample_task 2 ''Write Report'' ''work'' ''medium'' ''in-progress'' 200"])
       (rule parsed stored sets casts')+
  show ?thesis
    by (intro conjI parsed stored sets casts answer)
qed
end
